theory Spec2Isabelle
  imports
    Complex_Main
    "HOL-Library.Multiset"
    "HOL-Library.Char_ord"
    "HOL-Library.List_Lexorder"
begin

section \<open>The meal recommender of app.py\<close>

text \<open>
  The program keeps a pandas table of meals, prepares it once (\<open>prepare_for_app\<close>)
  and answers each request with \<open>recommend\<close>. The table is modelled row by row:
  a row is a record, the table a list of rows together with the fact whether the
  optional column \<open>kind\<close> exists. Numeric cells are real numbers; the rounding of
  float64, NaN and the infinities are not modelled. Text is a list of bytes.
\<close>

subsection \<open>Text: \<open>str.strip\<close> and \<open>str.lower\<close>\<close>

text \<open>
  Python strips the characters for which \<open>isspace\<close> holds and lowers each cased
  character. The model has the ASCII part of both tables: tab, line feed, vertical
  tab, form feed, carriage return, the four separators 28 to 31 and the blank; the
  letters A to Z.
\<close>

definition isspace :: "char \<Rightarrow> bool" where
  "isspace c = ((of_char c :: nat) \<in> {9, 10, 11, 12, 13, 28, 29, 30, 31, 32})"

definition strip :: "string \<Rightarrow> string" where
  "strip s = rev (dropWhile isspace (rev (dropWhile isspace s)))"

definition lower_char :: "char \<Rightarrow> char" where
  "lower_char c =
     (case map_of (zip ''ABCDEFGHIJKLMNOPQRSTUVWXYZ'' ''abcdefghijklmnopqrstuvwxyz'') c of
        Some l \<Rightarrow> l
      | None \<Rightarrow> c)"

definition lower :: "string \<Rightarrow> string" where
  "lower s = map lower_char s"

subsection \<open>Rows and tables\<close>

text \<open>
  A row of the prepared table has every column that \<open>recommend\<close> reads. The text
  cells \<open>why\<close> and \<open>kind\<close> are \<open>None\<close> where the cell is null.
\<close>

record meal =
  title :: string
  calories :: real
  protein :: real
  fat :: real
  sodium :: real
  meal_slot :: string
  why :: "string option"
  final_score :: real
  kind :: "string option"

text \<open>\<open>recommend\<close> adds the two columns \<open>calorie_fit\<close> and \<open>score\<close> to its pool.\<close>

record scored = meal +
  calorie_fit :: real
  score :: real

record dataframe =
  rows :: "meal list"
  has_kind :: bool

datatype error = ValueError string

subsection \<open>\<open>prepare_for_app\<close>\<close>

text \<open>
  The raw table is what \<open>read_csv\<close> delivers: the names of its columns, one column per
  name, and its rows. A cell of a nutrient column is a number, a text or missing; the
  text columns \<open>title\<close>, \<open>meal_slot\<close>, \<open>why\<close> and \<open>kind\<close> hold a text or
  nothing, and a supplied \<open>final_score\<close> is a number. The fields of a column that the
  table does not have are never read.
\<close>

datatype cell = Num real | Text string | NA

record raw_row =
  raw_title :: "string option"
  raw_calories :: cell
  raw_protein :: cell
  raw_fat :: cell
  raw_sodium :: cell
  raw_meal_slot :: "string option"
  raw_why :: "string option"
  raw_final_score :: real
  raw_kind :: "string option"

record raw_dataframe =
  columns :: "string list"
  raw_rows :: "raw_row list"

definition required :: "string list" where
  "required = [''title'', ''calories'', ''protein'', ''fat'', ''sodium'']"

text \<open>The texts of the program, in UTF-8: the message of the missing column and the four notes.\<close>

definition missing_column_message :: string where
  "missing_column_message =
    [CHR 0xD9, CHR 0x85, CHR 0xD9, CHR 0x84, CHR 0xD9, CHR 0x81, CHR 0x20, CHR 0x43,
     CHR 0x53, CHR 0x56, CHR 0x20, CHR 0xD9, CHR 0x86, CHR 0xD8, CHR 0xA7, CHR 0xD9,
     CHR 0x82, CHR 0xD8, CHR 0xB5, CHR 0x20, CHR 0xD8, CHR 0xB9, CHR 0xD9, CHR 0x85,
     CHR 0xD9, CHR 0x88, CHR 0xD8, CHR 0xAF, CHR 0x20, CHR 0xD8, CHR 0xA3, CHR 0xD8,
     CHR 0xB3, CHR 0xD8, CHR 0xA7, CHR 0xD8, CHR 0xB3, CHR 0xD9, CHR 0x8A, CHR 0x3A,
     CHR 0x20]"

definition lower_sodium_note :: string where
  "lower_sodium_note =
    [CHR 0xD8, CHR 0xB5, CHR 0xD9, CHR 0x88, CHR 0xD8, CHR 0xAF, CHR 0xD9, CHR 0x8A,
     CHR 0xD9, CHR 0x88, CHR 0xD9, CHR 0x85, CHR 0x20, CHR 0xD8, CHR 0xA3, CHR 0xD9,
     CHR 0x82, CHR 0xD9, CHR 0x84]"

definition higher_sodium_note :: string where
  "higher_sodium_note =
    [CHR 0xD8, CHR 0xB5, CHR 0xD9, CHR 0x88, CHR 0xD8, CHR 0xAF, CHR 0xD9, CHR 0x8A,
     CHR 0xD9, CHR 0x88, CHR 0xD9, CHR 0x85, CHR 0x20, CHR 0xD8, CHR 0xA3, CHR 0xD8,
     CHR 0xB9, CHR 0xD9, CHR 0x84, CHR 0xD9, CHR 0x89]"

definition high_protein_note :: string where
  "high_protein_note =
    [CHR 0xD8, CHR 0xA8, CHR 0xD8, CHR 0xB1, CHR 0xD9, CHR 0x88, CHR 0xD8, CHR 0xAA,
     CHR 0xD9, CHR 0x8A, CHR 0xD9, CHR 0x86, CHR 0x20, CHR 0xD8, CHR 0xB9, CHR 0xD8,
     CHR 0xA7, CHR 0xD9, CHR 0x84, CHR 0xD9, CHR 0x8A]"

definition medium_protein_note :: string where
  "medium_protein_note =
    [CHR 0xD8, CHR 0xA8, CHR 0xD8, CHR 0xB1, CHR 0xD9, CHR 0x88, CHR 0xD8, CHR 0xAA,
     CHR 0xD9, CHR 0x8A, CHR 0xD9, CHR 0x86, CHR 0x20, CHR 0xD9, CHR 0x85, CHR 0xD8,
     CHR 0xAA, CHR 0xD9, CHR 0x88, CHR 0xD8, CHR 0xB3, CHR 0xD8, CHR 0xB7]"

text \<open>
  \<open>pd.to_numeric(errors="coerce")\<close> keeps a number, turns a missing cell and a text
  that is no number into the missing value, and parses the other texts. How pandas
  reads a number from a text is the parameter \<open>parse\<close>.
\<close>

definition to_numeric :: "(string \<Rightarrow> real option) \<Rightarrow> cell \<Rightarrow> real option" where
  "to_numeric parse c = (case c of Num x \<Rightarrow> Some x | Text s \<Rightarrow> parse s | NA \<Rightarrow> None)"

text \<open>\<open>Series.between(left, right)\<close> includes both ends.\<close>

definition between :: "real \<Rightarrow> real \<Rightarrow> real \<Rightarrow> bool" where
  "between x left right \<longleftrightarrow> left \<le> x \<and> x \<le> right"

text \<open>\<open>astype(str)\<close> writes a missing cell as the text nan.\<close>

definition astype_str :: "string option \<Rightarrow> string" where
  "astype_str c = (case c of Some s \<Rightarrow> s | None \<Rightarrow> ''nan'')"

definition build_why :: "real \<Rightarrow> real \<Rightarrow> string" where
  "build_why sodium_r protein_r =
     (let sodium_note = (if sodium_r \<le> 600 then lower_sodium_note else higher_sodium_note);
          protein_note = (if protein_r \<ge> 25 then high_protein_note else medium_protein_note)
      in sodium_note @ '' + '' @ protein_note)"

definition normalize_slot :: "string option \<Rightarrow> string" where
  "normalize_slot c =
     (let s = lower (strip (astype_str c))
      in if s \<in> set [''suhoor'', ''iftar'', ''either''] then s else ''either'')"

text \<open>
  Every step of the preparation works on each row by itself, so the model prepares
  row by row, in the order of the program: the four nutrients are made numeric, a
  row with a missing title or nutrient is dropped, a row outside the sanity ranges
  is dropped, and the optional columns are normalised or derived.
\<close>

definition prepare_row :: "(string \<Rightarrow> real option) \<Rightarrow> string list \<Rightarrow> raw_row \<Rightarrow> meal option" where
  "prepare_row parse cols r =
     (case raw_title r of None \<Rightarrow> None | Some t \<Rightarrow>
      case to_numeric parse (raw_calories r) of None \<Rightarrow> None | Some c \<Rightarrow>
      case to_numeric parse (raw_protein r) of None \<Rightarrow> None | Some p \<Rightarrow>
      case to_numeric parse (raw_fat r) of None \<Rightarrow> None | Some f \<Rightarrow>
      case to_numeric parse (raw_sodium r) of None \<Rightarrow> None | Some s \<Rightarrow>
        if between c 1 1993 \<and> between p 0 200 \<and> between f 0 194 \<and> between s 0 5980
        then Some
          \<lparr>title = t, calories = c, protein = p, fat = f, sodium = s,
           meal_slot =
             (if ''meal_slot'' \<notin> set cols then ''either''
              else normalize_slot (raw_meal_slot r)),
           why = (if ''why'' \<notin> set cols then Some (build_why s p) else raw_why r),
           final_score =
             (if ''final_score'' \<notin> set cols then p * 0.8 - s / 1200 - f * 0.05
              else raw_final_score r),
           kind =
             (if ''kind'' \<in> set cols then Some (lower (strip (astype_str (raw_kind r))))
              else None)\<rparr>
        else None)"

definition prepare_for_app :: "(string \<Rightarrow> real option) \<Rightarrow> raw_dataframe \<Rightarrow> error + dataframe" where
  "prepare_for_app parse df =
     (case find (\<lambda>c. c \<notin> set (columns df)) required of
        Some c \<Rightarrow> Inl (ValueError (missing_column_message @ c))
      | None \<Rightarrow>
          Inr \<lparr>rows = List.map_filter (prepare_row parse (columns df)) (raw_rows df),
               has_kind = (''kind'' \<in> set (columns df))\<rparr>)"

subsection \<open>The pandas operations that \<open>recommend\<close> calls\<close>

text \<open>
  \<open>DataFrame.head(n)\<close> returns the first \<open>n\<close> rows, and for a negative \<open>n\<close>
  all rows but the last \<open>-n\<close>.
\<close>

definition head_df :: "int \<Rightarrow> 'a list \<Rightarrow> 'a list" where
  "head_df n xs =
     (if 0 \<le> n then take (nat n) xs else take (length xs - nat (- n)) xs)"

text \<open>\<open>Series.clip(lower, upper)\<close>: the maximum with the lower bound, then the minimum with the upper one.\<close>

definition clip :: "real \<Rightarrow> real \<Rightarrow> real \<Rightarrow> real" where
  "clip lo hi x = min (max x lo) hi"

text \<open>
  \<open>groupby("kind", dropna=False)\<close> yields one group per distinct key, the text keys
  in ascending order and the null key last; each group keeps the rows in the order
  of the table.
\<close>

definition group_keys :: "scored list \<Rightarrow> string option list" where
  "group_keys pool =
     map Some (sort (remdups (List.map_filter kind pool)))
     @ (if None \<in> kind ` set pool then [None] else [])"

definition groupby_kind :: "scored list \<Rightarrow> scored list list" where
  "groupby_kind pool = map (\<lambda>k. filter (\<lambda>r. kind r = k) pool) (group_keys pool)"

text \<open>\<open>pd.concat\<close> raises a ValueError on an empty list of frames.\<close>

definition pd_concat :: "'a list list \<Rightarrow> error + 'a list" where
  "pd_concat out =
     (if out = [] then Inl (ValueError ''No objects to concatenate'')
      else Inr (concat out))"

text \<open>
  \<open>sort_values("score", ascending=False)\<close> runs the default sorting algorithm of
  pandas, quicksort, which is not stable: the order among rows of equal score is
  not determined by the program. The sorting routine is therefore a parameter of
  the model, and \<open>sorts_by_score\<close> says all that the program can rely on: the
  result has the same rows and the scores do not increase.
\<close>

definition sorts_by_score :: "(scored list \<Rightarrow> scored list) \<Rightarrow> bool" where
  "sorts_by_score sort_values \<longleftrightarrow>
     (\<forall>xs. mset (sort_values xs) = mset xs
          \<and> sorted_wrt (\<lambda>a b. score a \<ge> score b) (sort_values xs))"

text \<open>One such routine, the stable one, for running the model on concrete tables.\<close>

definition stable_sort_values :: "scored list \<Rightarrow> scored list" where
  "stable_sort_values xs = sort_key (\<lambda>r. - score r) xs"

subsection \<open>\<open>recommend\<close>\<close>

definition slot_filter :: "string \<Rightarrow> meal list \<Rightarrow> meal list" where
  "slot_filter meal pool =
     (if meal \<in> set [''suhoor'', ''iftar'']
      then filter (\<lambda>r. meal_slot r \<in> set [meal, ''either'']) pool
      else pool)"

definition hard_filter :: "int \<Rightarrow> int \<Rightarrow> int \<Rightarrow> meal list \<Rightarrow> meal list" where
  "hard_filter calories_max protein_min sodium_max pool =
     filter (\<lambda>r. calories r \<le> of_int calories_max
                \<and> protein r \<ge> of_int protein_min
                \<and> sodium r \<le> of_int sodium_max) pool"

text \<open>The rows left after both filters, from which the result is drawn.\<close>

definition survivors :: "dataframe \<Rightarrow> string \<Rightarrow> int \<Rightarrow> int \<Rightarrow> int \<Rightarrow> meal list" where
  "survivors df meal calories_max protein_min sodium_max =
     hard_filter calories_max protein_min sodium_max
       (slot_filter (lower (strip meal)) (rows df))"

definition fit_of :: "int \<Rightarrow> real \<Rightarrow> real" where
  "fit_of calories_max c =
     clip 0 1 (1 - \<bar>c - of_int calories_max\<bar> / of_int (max calories_max 1))"

definition add_scores :: "int \<Rightarrow> meal \<Rightarrow> scored" where
  "add_scores calories_max r =
     meal.extend r
       (scored.fields (fit_of calories_max (calories r))
          (final_score r + fit_of calories_max (calories r) * 0.6))"

definition diversify ::
  "(scored list \<Rightarrow> scored list) \<Rightarrow> int \<Rightarrow> scored list \<Rightarrow> error + scored list" where
  "diversify sort_values top_n pool =
     (let per_kind_cap = max 1 (top_n div 4);
          out = map (head_df per_kind_cap) (groupby_kind pool)
      in case pd_concat out of
           Inl e \<Rightarrow> Inl e
         | Inr out \<Rightarrow> Inr (head_df top_n (sort_values out)))"

definition recommend ::
  "(scored list \<Rightarrow> scored list) \<Rightarrow> dataframe \<Rightarrow> string \<Rightarrow> int \<Rightarrow> int \<Rightarrow> int \<Rightarrow> int
     \<Rightarrow> error + scored list" where
  "recommend sort_values df meal calories_max protein_min sodium_max top_n =
     (let pool = survivors df meal calories_max protein_min sodium_max
      in if pool = [] then Inr []
         else
           let pool = sort_values (map (add_scores calories_max) pool)
           in if has_kind df then diversify sort_values top_n pool
              else Inr (head_df top_n pool))"

subsection \<open>The diversification as the specification words it\<close>

text \<open>
  The specification describes the branch for a table with a \<open>kind\<close> column in its
  own words: group the sorted candidates by kind, take the top
  \<open>per_kind_cap = max(1, top_n // 4)\<close> rows of each group, concatenate the groups,
  sort the concatenation by score again, and truncate to \<open>top_n\<close> rows. This is that
  description; \<open>recommend\<close> is compared with it below.
\<close>

definition diversified_spec ::
  "(scored list \<Rightarrow> scored list) \<Rightarrow> int \<Rightarrow> scored list \<Rightarrow> scored list" where
  "diversified_spec resort top_n candidates =
     (let per_kind_cap = max 1 (top_n div 4);
          top_of_each_group = map (take (nat per_kind_cap)) (groupby_kind candidates)
      in take (nat top_n) (resort (concat top_of_each_group)))"

subsection \<open>Example tables\<close>

text \<open>The two meals of the scenario in the specification, with a fat and a base score added.\<close>

definition meal_A :: meal where
  "meal_A = \<lparr>title = ''A'', calories = 500, protein = 30, fat = 10, sodium = 500,
     meal_slot = ''suhoor'', why = None, final_score = 2, kind = None\<rparr>"

definition meal_B :: meal where
  "meal_B = \<lparr>title = ''B'', calories = 900, protein = 10, fat = 40, sodium = 2000,
     meal_slot = ''iftar'', why = None, final_score = 3, kind = None\<rparr>"

definition scenario_table :: dataframe where
  "scenario_table = \<lparr>rows = [meal_A, meal_B], has_kind = False\<rparr>"

text \<open>A table without sanity filter: one meal at the calorie ceiling of 700 and one without calories.\<close>

definition fit_table :: dataframe where
  "fit_table =
     \<lparr>rows = [meal_A\<lparr>calories := 700\<rparr>, meal_A\<lparr>title := ''Z'', calories := 0, final_score := 1\<rparr>],
      has_kind = False\<rparr>"

text \<open>Two kinds with eight meals each.\<close>

definition kind_row :: "string \<Rightarrow> real \<Rightarrow> meal" where
  "kind_row k c = \<lparr>title = k, calories = c, protein = 30, fat = 10, sodium = 500,
     meal_slot = ''either'', why = None, final_score = c / 100, kind = Some k\<rparr>"

definition kind_table :: dataframe where
  "kind_table =
     \<lparr>rows = map (kind_row ''soup'') [100, 200, 300, 400, 500, 600, 700, 800]
             @ map (kind_row ''salad'') [150, 250, 350, 450, 550, 650, 750, 850],
      has_kind = True\<rparr>"

text \<open>
  A raw table, and one reader of numbers for it: the one that reads a text of
  decimal digits and nothing else.
\<close>

definition parse_digits :: "string \<Rightarrow> real option" where
  "parse_digits s =
     (if s \<noteq> [] \<and> list_all (\<lambda>c. c \<in> set ''0123456789'') s
      then Some (real (foldl (\<lambda>n c. 10 * n + (of_char c - 48)) 0 s))
      else None)"

definition raw_A :: raw_row where
  "raw_A = \<lparr>raw_title = Some ''A'', raw_calories = Num 500, raw_protein = Text ''30'',
     raw_fat = Num 10, raw_sodium = Num 500, raw_meal_slot = Some '' Suhoor '',
     raw_why = None, raw_final_score = 0, raw_kind = None\<rparr>"

definition raw_table :: raw_dataframe where
  "raw_table =
     \<lparr>columns = [''title'', ''calories'', ''protein'', ''fat'', ''sodium'', ''meal_slot''],
      raw_rows =
        [raw_A,
         raw_A\<lparr>raw_calories := Num 0\<rparr>,
         raw_A\<lparr>raw_title := None\<rparr>,
         raw_A\<lparr>raw_title := Some ''C'', raw_meal_slot := Some ''brunch''\<rparr>,
         raw_A\<lparr>raw_protein := Text ''n/a''\<rparr>]\<rparr>"

definition no_protein_table :: raw_dataframe where
  "no_protein_table = raw_table\<lparr>columns := [''title'', ''calories'', ''fat'']\<rparr>"

section \<open>Facts about the operations\<close>

lemma set_head_df: "set (head_df n xs) \<subseteq> set xs"
  by (simp add: head_df_def set_take_subset)

lemma sorts_set: "sorts_by_score srt \<Longrightarrow> set (srt xs) = set xs"
  unfolding sorts_by_score_def by (metis mset_eq_setD)

lemma sorts_length: "sorts_by_score srt \<Longrightarrow> length (srt xs) = length xs"
  unfolding sorts_by_score_def by (metis mset_eq_length)

lemma sorts_sorted:
  "sorts_by_score srt \<Longrightarrow> sorted_wrt (\<lambda>a b. score a \<ge> score b) (srt xs)"
  unfolding sorts_by_score_def by blast

lemma stable_sort_values_sorts: "sorts_by_score stable_sort_values"
proof -
  have "sorted_wrt (\<lambda>a b. score a \<ge> score b) (sort_key (\<lambda>r. - score r) xs)" for xs :: "scored list"
  proof -
    have "sorted (map (\<lambda>r. - score r) (sort_key (\<lambda>r. - score r) xs))"
      by (rule sorted_sort_key)
    then show ?thesis
      by (simp add: sorted_map)
  qed
  then show ?thesis
    by (simp add: sorts_by_score_def stable_sort_values_def)
qed

lemma add_scores_sel [simp]:
  "calories (add_scores c r) = calories r"
  "protein (add_scores c r) = protein r"
  "sodium (add_scores c r) = sodium r"
  "meal_slot (add_scores c r) = meal_slot r"
  "final_score (add_scores c r) = final_score r"
  "kind (add_scores c r) = kind r"
  "calorie_fit (add_scores c r) = fit_of c (calories r)"
  "score (add_scores c r) = final_score r + fit_of c (calories r) * 0.6"
  by (simp_all add: add_scores_def meal.defs scored.defs)

lemma length_head_df: "0 \<le> n \<Longrightarrow> length (head_df n xs) \<le> nat n"
  by (simp add: head_df_def)

lemma head_df_take: "0 \<le> n \<Longrightarrow> head_df n xs = take (nat n) xs"
  by (simp add: head_df_def)

lemma head_df_nonempty: "1 \<le> n \<Longrightarrow> xs \<noteq> [] \<Longrightarrow> head_df n xs \<noteq> []"
  by (cases xs) (auto simp: head_df_def)

lemma sorted_head_df: "sorted_wrt P xs \<Longrightarrow> sorted_wrt P (head_df n xs)"
  by (simp add: head_df_def)

lemma sorts_nonempty: "sorts_by_score srt \<Longrightarrow> xs \<noteq> [] \<Longrightarrow> srt xs \<noteq> []"
  using sorts_length [of srt xs] by auto

lemma sorts_Nil: "sorts_by_score srt \<Longrightarrow> srt [] = []"
  using sorts_length [of srt "[]"] by simp

text \<open>The groups: one per kind that occurs, none of them empty, all of them from the pool.\<close>

lemma set_group_keys: "set (group_keys pool) = kind ` set pool"
proof
  show "set (group_keys pool) \<subseteq> kind ` set pool"
    by (auto simp: group_keys_def List.map_filter_def intro: rev_image_eqI)
next
  show "kind ` set pool \<subseteq> set (group_keys pool)"
  proof
    fix k assume "k \<in> kind ` set pool"
    then obtain r where r: "r \<in> set pool" "kind r = k" by auto
    show "k \<in> set (group_keys pool)"
    proof (cases k)
      case None
      with r show ?thesis by (force simp: group_keys_def)
    next
      case (Some s)
      with r have "s \<in> set (List.map_filter kind pool)"
        by (force simp: List.map_filter_def)
      with Some show ?thesis by (simp add: group_keys_def)
    qed
  qed
qed

lemma distinct_group_keys: "distinct (group_keys pool)"
  by (auto simp: group_keys_def distinct_map)

lemma length_group_keys: "length (group_keys pool) = card (kind ` set pool)"
  using distinct_card [OF distinct_group_keys, of pool] by (simp add: set_group_keys)

lemma groupby_kind_nonempty: "pool \<noteq> [] \<Longrightarrow> groupby_kind pool \<noteq> []"
  using set_group_keys [of pool] by (cases pool) (auto simp: groupby_kind_def)

lemma groups_nonempty: "g \<in> set (groupby_kind pool) \<Longrightarrow> g \<noteq> []"
  by (auto simp: groupby_kind_def set_group_keys filter_empty_conv)

lemma set_groups: "g \<in> set (groupby_kind pool) \<Longrightarrow> set g \<subseteq> set pool"
  by (auto simp: groupby_kind_def)

lemma set_capped_groups:
  "set (concat (map (head_df cap) (groupby_kind pool))) \<subseteq> set pool"
  using set_head_df set_groups by fastforce

text \<open>\<open>pd.concat\<close> gets at least one group, so the diversification raises nothing.\<close>

lemma diversify_result:
  "pool \<noteq> [] \<Longrightarrow>
   diversify srt n pool =
     Inr (head_df n (srt (concat (map (head_df (max 1 (n div 4))) (groupby_kind pool)))))"
  by (simp add: diversify_def pd_concat_def groupby_kind_nonempty Let_def)

subsection \<open>The result of \<open>recommend\<close>\<close>

text \<open>With a sorting routine that keeps the rows, \<open>recommend\<close> raises nothing, and its three branches return this.\<close>

lemma recommend_result:
  assumes "sorts_by_score srt"
  shows "recommend srt df meal c p s n =
     Inr (if survivors df meal c p s = [] then []
          else if has_kind df
          then head_df n (srt (concat (map (head_df (max 1 (n div 4)))
                 (groupby_kind (srt (map (add_scores c) (survivors df meal c p s)))))))
          else head_df n (srt (map (add_scores c) (survivors df meal c p s))))"
proof (cases "survivors df meal c p s = []")
  case True
  then show ?thesis by (simp add: recommend_def)
next
  case False
  then have "srt (map (add_scores c) (survivors df meal c p s)) \<noteq> []"
    using sorts_nonempty [OF assms] by simp
  with False show ?thesis
    by (simp add: recommend_def Let_def diversify_result)
qed

lemma recommend_rows:
  assumes "sorts_by_score srt" and "recommend srt df meal c p s n = Inr out"
  shows "set out \<subseteq> add_scores c ` set (survivors df meal c p s)"
proof -
  let ?pool = "srt (map (add_scores c) (survivors df meal c p s))"
  have pool: "set ?pool = add_scores c ` set (survivors df meal c p s)"
    by (simp add: sorts_set [OF assms(1)])
  have "set (head_df n (srt (concat (map (head_df (max 1 (n div 4))) (groupby_kind ?pool))))) \<subseteq> set ?pool"
    using set_head_df [of n] set_capped_groups [of _ ?pool] sorts_set [OF assms(1)]
    by (metis subset_trans)
  moreover have "set (head_df n ?pool) \<subseteq> set ?pool"
    by (rule set_head_df)
  ultimately show ?thesis
    using assms(2) pool unfolding recommend_result [OF assms(1)]
    by (auto split: if_splits)
qed

lemma survivors_bounds:
  "r \<in> set (survivors df meal c p s) \<Longrightarrow>
     calories r \<le> of_int c \<and> protein r \<ge> of_int p \<and> sodium r \<le> of_int s"
  by (simp add: survivors_def hard_filter_def)

lemma length_capped_groups:
  assumes "0 \<le> cap"
  shows "length (concat (map (head_df cap) (groupby_kind pool))) \<le> card (kind ` set pool) * nat cap"
proof -
  have "length (concat (map (head_df cap) gs)) \<le> length gs * nat cap" for gs :: "scored list list"
  proof (induction gs)
    case Nil
    then show ?case by simp
  next
    case (Cons g gs)
    have "length (head_df cap g) \<le> nat cap"
      using assms by (rule length_head_df)
    with Cons show ?case by simp
  qed
  from this [of "groupby_kind pool"] show ?thesis
    by (simp add: groupby_kind_def length_group_keys)
qed

lemma clip_clamp: "clip 0 1 y = max 0 (min 1 y)"
  by (auto simp: clip_def max_def min_def)

lemma fit_of_clamp:
  "fit_of c x = max 0 (min 1 (1 - \<bar>x - of_int c\<bar> / of_int (max c 1)))"
  by (simp only: fit_of_def clip_clamp)

subsection \<open>The rows of the prepared table\<close>





lemma find_missing_None:
  "find (\<lambda>c. c \<notin> set cols) req = None \<longleftrightarrow> set req \<subseteq> set cols"
  by (auto simp: find_None_iff)

lemma find_missing_Some:
  "find (\<lambda>c. c \<notin> set cols) req = Some c \<Longrightarrow> c \<in> set req \<and> c \<notin> set cols"
  by (auto simp: find_Some_iff)

subsection \<open>The model run on the example tables\<close>

lemmas run_defs =
  recommend_def survivors_def hard_filter_def slot_filter_def lower_def strip_def isspace_def
  lower_char_def add_scores_def fit_of_def clip_def stable_sort_values_def head_df_def
  diversify_def pd_concat_def groupby_kind_def group_keys_def List.map_filter_def
  meal.defs scored.defs

lemmas scenario_defs = scenario_table_def meal_A_def meal_B_def

lemma scenario_suhoor:
  "recommend stable_sort_values scenario_table ''suhoor'' 700 20 1200 5
     = Inr [add_scores 700 meal_A]"
  by (simp add: run_defs scenario_defs)


lemma scenario_either:
  "recommend stable_sort_values scenario_table ''either'' 2000 0 6000 5
     = Inr [add_scores 2000 meal_B, add_scores 2000 meal_A]"
  by (simp add: run_defs scenario_defs)


lemma scenario_no_survivors:
  "survivors scenario_table ''suhoor'' 700 1000 1200 = []"
  by (simp add: run_defs scenario_defs)

lemma fit_table_run:
  "recommend stable_sort_values fit_table ''either'' 700 0 6000 5
     = Inr [add_scores 700 (meal_A\<lparr>calories := 700\<rparr>),
            add_scores 700 (meal_A\<lparr>title := ''Z'', calories := 0, final_score := 1\<rparr>)]"
  by (simp add: run_defs fit_table_def meal_A_def)

lemma kind_table_survivors:
  "survivors kind_table ''either'' 1000 20 1200 = rows kind_table"
  by (simp add: run_defs kind_table_def kind_row_def)

lemma kind_table_kinds:
  "card (kind ` set (survivors kind_table ''either'' 1000 20 1200)) = 2"
  by (simp add: kind_table_survivors) (simp add: kind_table_def kind_row_def)

lemma kind_table_top4:
  "recommend stable_sort_values kind_table ''either'' 1000 20 1200 4
     = Inr [add_scores 1000 (kind_row ''salad'' 850), add_scores 1000 (kind_row ''soup'' 800)]"
  by code_simp

lemma kind_table_top1:
  "recommend stable_sort_values kind_table ''either'' 1000 20 1200 1
     = Inr [add_scores 1000 (kind_row ''salad'' 850)]"
  by code_simp


lemma no_protein_table_columns:
  "columns no_protein_table = [''title'', ''calories'', ''fat'']"
  by (simp add: no_protein_table_def)

section \<open>The claims\<close>

text \<open>
  Every statement about \<open>recommend\<close> holds for each sorting routine that returns the
  same rows in an order of non-increasing score, and says that \<open>recommend\<close> returns
  a result, not an error.
\<close>

text \<open>
  C1. For every table, every meal string and all bounds, every row that \<open>recommend\<close>
  returns satisfies \<open>calories \<le> calories_max\<close>, \<open>protein \<ge> protein_min\<close> and
  \<open>sodium \<le> sodium_max\<close>.
\<close>

theorem recommend_respects_bounds:
  assumes "sorts_by_score sort_values"
  shows "\<exists>out. recommend sort_values df meal calories_max protein_min sodium_max top_n = Inr out
           \<and> (\<forall>r \<in> set out. calories r \<le> of_int calories_max
                  \<and> protein r \<ge> of_int protein_min
                  \<and> sodium r \<le> of_int sodium_max)"
proof -
  obtain out where out:
    "recommend sort_values df meal calories_max protein_min sodium_max top_n = Inr out"
    using recommend_result [OF assms] by blast
  have "calories r \<le> of_int calories_max \<and> protein r \<ge> of_int protein_min
          \<and> sodium r \<le> of_int sodium_max"
    if "r \<in> set out" for r
  proof -
    from that recommend_rows [OF assms out]
    obtain m where "m \<in> set (survivors df meal calories_max protein_min sodium_max)"
      and "r = add_scores calories_max m"
      by auto
    then show ?thesis using survivors_bounds [of m] by simp
  qed
  with out show ?thesis by blast
qed

theorem recommend_respects_bounds_witness:
  "\<exists>out. recommend stable_sort_values scenario_table ''suhoor'' 700 20 1200 5 = Inr out
     \<and> map title out = [''A'']
     \<and> (\<forall>r \<in> set out. calories r \<le> 700 \<and> protein r \<ge> 20 \<and> sodium r \<le> 1200)"
  using recommend_respects_bounds [OF stable_sort_values_sorts,
      where df = scenario_table and meal = "''suhoor''" and calories_max = 700
        and protein_min = 20 and sodium_max = 1200 and top_n = 5]
  by (simp add: scenario_suhoor add_scores_def meal.defs scored.defs meal_A_def)

text \<open>
  C2. For every table and every constraint set, the sequence that \<open>recommend\<close> returns
  has at most \<open>top_n\<close> rows. A constraint set has a result count from 1 to 20; the
  bound holds for every count that is not negative.
\<close>

theorem recommend_at_most_top_n:
  assumes "sorts_by_score sort_values" and "0 \<le> top_n"
  shows "\<exists>out. recommend sort_values df meal calories_max protein_min sodium_max top_n = Inr out
           \<and> int (length out) \<le> top_n"
  using assms(2) length_head_df [of top_n]
  unfolding recommend_result [OF assms(1)]
  by (auto simp: le_nat_iff)

theorem recommend_at_most_top_n_witness:
  "\<exists>out. recommend stable_sort_values kind_table ''either'' 1000 20 1200 1 = Inr out
     \<and> length out = 1 \<and> int (length out) \<le> 1"
  using recommend_at_most_top_n [OF stable_sort_values_sorts,
      where df = kind_table and meal = "''either''" and calories_max = 1000
        and protein_min = 20 and sodium_max = 1200 and top_n = 1]
  by (simp add: kind_table_top1)

text \<open>
  C3. When the table has a \<open>kind\<close> column, \<open>recommend\<close> takes the top
  \<open>per_kind_cap = max(1, top_n // 4)\<close> rows of each kind group of the candidates
  sorted by score, concatenates the groups, sorts by score again and truncates to
  \<open>top_n\<close>: its result is \<open>diversified_spec\<close> of the sorted candidates. In
  particular, when the rows that pass the filters have exactly two kinds (of eight
  rows each, or of any other size), \<open>recommend\<close> with \<open>top_n = 4\<close> returns at most
  two rows.
\<close>

theorem recommend_diversifies:
  assumes "sorts_by_score sort_values" and "has_kind df"
  shows "(0 \<le> top_n \<longrightarrow>
            recommend sort_values df meal calories_max protein_min sodium_max top_n =
              Inr (diversified_spec sort_values top_n
                     (sort_values (map (add_scores calories_max)
                        (survivors df meal calories_max protein_min sodium_max)))))
       \<and> (card (kind ` set (survivors df meal calories_max protein_min sodium_max)) = 2 \<longrightarrow>
            (\<exists>out. recommend sort_values df meal calories_max protein_min sodium_max 4 = Inr out
               \<and> length out \<le> 2))"
proof -
  let ?surv = "survivors df meal calories_max protein_min sodium_max"
  let ?pool = "sort_values (map (add_scores calories_max) ?surv)"
  have eq: "recommend sort_values df meal calories_max protein_min sodium_max top_n =
              Inr (diversified_spec sort_values top_n ?pool)" if n: "0 \<le> top_n"
  proof (cases "?surv = []")
    case True
    then have "?pool = []" using sorts_Nil [OF assms(1)] by simp
    then have "diversified_spec sort_values top_n ?pool = []"
      using sorts_Nil [OF assms(1)]
      by (simp add: diversified_spec_def groupby_kind_def group_keys_def List.map_filter_def)
    with True show ?thesis by (simp add: recommend_def)
  next
    case False
    have "head_df (max 1 (top_n div 4)) =
            (take (nat (max 1 (top_n div 4))) :: scored list \<Rightarrow> scored list)"
      by (rule ext) (simp add: head_df_def)
    with False n show ?thesis
      unfolding recommend_result [OF assms(1)]
      by (simp add: assms(2) diversified_spec_def head_df_take)
  qed
  have two: "\<exists>out. recommend sort_values df meal calories_max protein_min sodium_max 4 = Inr out
               \<and> length out \<le> 2" if k: "card (kind ` set ?surv) = 2"
  proof -
    have ne: "?surv \<noteq> []" using k by auto
    have "kind ` set ?pool = kind ` set ?surv"
      by (simp add: sorts_set [OF assms(1)] image_image)
    then have "length (concat (map (head_df 1) (groupby_kind ?pool))) \<le> 2"
      using length_capped_groups [of 1 ?pool] k by simp
    then have "length (head_df 4 (sort_values (concat (map (head_df 1) (groupby_kind ?pool))))) \<le> 2"
      by (simp add: sorts_length [OF assms(1)] head_df_def)
    with ne show ?thesis
      unfolding recommend_result [OF assms(1)] by (simp add: assms(2))
  qed
  from eq two show ?thesis by blast
qed

theorem recommend_diversifies_witness:
  "recommend stable_sort_values kind_table ''either'' 1000 20 1200 4 =
     Inr (diversified_spec stable_sort_values 4
            (stable_sort_values (map (add_scores 1000)
               (survivors kind_table ''either'' 1000 20 1200))))
   \<and> card (kind ` set (survivors kind_table ''either'' 1000 20 1200)) = 2
   \<and> (\<exists>out. recommend stable_sort_values kind_table ''either'' 1000 20 1200 4 = Inr out
          \<and> map title out = [''salad'', ''soup''] \<and> length out \<le> 2)"
proof -
  have k: "has_kind kind_table"
    by (simp add: kind_table_def)
  note inst = recommend_diversifies [OF stable_sort_values_sorts k,
      where meal = "''either''" and calories_max = 1000 and protein_min = 20
        and sodium_max = 1200 and top_n = 4]
  from inst have
    "(0::int) \<le> 4 \<longrightarrow>
     recommend stable_sort_values kind_table ''either'' 1000 20 1200 4 =
       Inr (diversified_spec stable_sort_values 4
              (stable_sort_values (map (add_scores 1000)
                 (survivors kind_table ''either'' 1000 20 1200))))"
    by (rule conjunct1)
  then have eq:
    "recommend stable_sort_values kind_table ''either'' 1000 20 1200 4 =
       Inr (diversified_spec stable_sort_values 4
              (stable_sort_values (map (add_scores 1000)
                 (survivors kind_table ''either'' 1000 20 1200))))"
    by simp
  have run: "\<exists>out. recommend stable_sort_values kind_table ''either'' 1000 20 1200 4 = Inr out
          \<and> map title out = [''salad'', ''soup''] \<and> length out \<le> 2"
    unfolding kind_table_top4
    by (simp add: add_scores_def meal.defs scored.defs kind_row_def)
  from eq kind_table_kinds run show ?thesis
    by (intro conjI)
qed

text \<open>
  C4. The sequence that \<open>recommend\<close> returns is ordered by non-increasing score, and
  the score of each returned row is its \<open>final_score\<close> plus 0.6 times its
  \<open>calorie_fit\<close>.
\<close>

theorem recommend_sorted_by_score:
  assumes "sorts_by_score sort_values"
  shows "\<exists>out. recommend sort_values df meal calories_max protein_min sodium_max top_n = Inr out
           \<and> sorted_wrt (\<lambda>a b. score a \<ge> score b) out
           \<and> (\<forall>r \<in> set out. score r = final_score r + 0.6 * calorie_fit r)"
proof -
  obtain out where out:
    "recommend sort_values df meal calories_max protein_min sodium_max top_n = Inr out"
    using recommend_result [OF assms] by blast
  have "sorted_wrt (\<lambda>a b. score a \<ge> score b) out"
    using out sorted_head_df [OF sorts_sorted [OF assms]]
    unfolding recommend_result [OF assms]
    by (auto split: if_splits)
  moreover have "score r = final_score r + 0.6 * calorie_fit r" if "r \<in> set out" for r
    using that recommend_rows [OF assms out] by auto
  ultimately show ?thesis using out by blast
qed

theorem recommend_sorted_by_score_witness:
  "\<exists>out. recommend stable_sort_values scenario_table ''either'' 2000 0 6000 5 = Inr out
     \<and> map title out = [''B'', ''A'']
     \<and> map score out = [3 + 0.6 * 0.45, 2 + 0.6 * 0.25]
     \<and> sorted_wrt (\<lambda>a b. score a \<ge> score b) out
     \<and> (\<forall>r \<in> set out. score r = final_score r + 0.6 * calorie_fit r)"
  using recommend_sorted_by_score [OF stable_sort_values_sorts,
      where df = scenario_table and meal = "''either''" and calories_max = 2000
        and protein_min = 0 and sodium_max = 6000 and top_n = 5]
  by (simp add: scenario_either add_scores_def fit_of_def clip_def meal.defs scored.defs
      meal_A_def meal_B_def)

text \<open>
  C5. For every row that survives, \<open>recommend\<close> computes
  \<open>calorie_fit = clamp(1 - |calories - calories_max| / max(calories_max, 1), 0, 1)\<close>.
  The fit is 1 for a row whose calories equal \<open>calories_max\<close>, and 0 for a row
  without calories when \<open>calories_max = 700\<close>. The divisor is never zero, also for
  \<open>calories_max = 0\<close>, where it is 1.
\<close>

theorem recommend_calorie_fit:
  assumes "sorts_by_score sort_values"
  shows "\<exists>out. recommend sort_values df meal calories_max protein_min sodium_max top_n = Inr out
           \<and> (\<forall>r \<in> set out.
                 calorie_fit r =
                   max 0 (min 1 (1 - \<bar>calories r - of_int calories_max\<bar>
                                      / of_int (max calories_max 1)))
                 \<and> (calories r = of_int calories_max \<longrightarrow> calorie_fit r = 1)
                 \<and> (calories r = 0 \<and> calories_max = 700 \<longrightarrow> calorie_fit r = 0))
           \<and> real_of_int (max calories_max 1) \<noteq> 0
           \<and> fit_of 0 x = max 0 (min 1 (1 - \<bar>x\<bar>))"
proof -
  obtain out where out:
    "recommend sort_values df meal calories_max protein_min sodium_max top_n = Inr out"
    using recommend_result [OF assms] by blast
  have fit: "calorie_fit r = fit_of calories_max (calories r)" if "r \<in> set out" for r
    using that recommend_rows [OF assms out] by auto
  have a: "fit_of calories_max (of_int calories_max) = 1"
    by (simp add: fit_of_def clip_def)
  have b: "fit_of 700 0 = 0"
    by (simp add: fit_of_def clip_def)
  have c: "real_of_int (max calories_max 1) \<noteq> 0"
    by (simp add: max_def)
  have d: "fit_of 0 x = max 0 (min 1 (1 - \<bar>x\<bar>))"
    by (simp add: fit_of_clamp)
  show ?thesis
    using out fit a b c d fit_of_clamp by (intro exI [of _ out]) auto
qed

theorem recommend_calorie_fit_witness:
  "\<exists>out. recommend stable_sort_values fit_table ''either'' 700 0 6000 5 = Inr out
     \<and> map calories out = [700, 0]
     \<and> map calorie_fit out = [1, 0]
     \<and> (\<forall>r \<in> set out.
           calorie_fit r = max 0 (min 1 (1 - \<bar>calories r - 700\<bar> / 700))
           \<and> (calories r = 700 \<longrightarrow> calorie_fit r = 1)
           \<and> (calories r = 0 \<longrightarrow> calorie_fit r = 0))"
  using recommend_calorie_fit [OF stable_sort_values_sorts,
      where df = fit_table and meal = "''either''" and calories_max = 700
        and protein_min = 0 and sodium_max = 6000 and top_n = 5]
  by (simp add: fit_table_run add_scores_def fit_of_def clip_def meal.defs scored.defs
      meal_A_def)



text \<open>
  C7. If no row survives the slot filter and the hard constraints, \<open>recommend\<close>
  returns the empty sequence and raises no error; so it does when \<open>protein_min\<close>
  exceeds the protein of every row, as \<open>protein_min = 1000\<close> does.
\<close>

theorem recommend_empty_pool:
  "(survivors df meal calories_max protein_min sodium_max = []
      \<longrightarrow> recommend sort_values df meal calories_max protein_min sodium_max top_n = Inr [])
   \<and> ((\<forall>r \<in> set (rows df). protein r < of_int protein_min)
      \<longrightarrow> recommend sort_values df meal calories_max protein_min sodium_max top_n = Inr [])"
proof -
  have "survivors df meal calories_max protein_min sodium_max = []"
    if "\<forall>r \<in> set (rows df). protein r < of_int protein_min"
    using that by (auto simp: survivors_def hard_filter_def slot_filter_def filter_empty_conv)
  then show ?thesis by (auto simp: recommend_def)
qed

theorem recommend_empty_pool_witness:
  "survivors scenario_table ''suhoor'' 700 1000 1200 = []
   \<and> map protein (rows scenario_table) = [30, 10]
   \<and> recommend stable_sort_values scenario_table ''suhoor'' 700 1000 1200 5 = Inr []"
proof -
  have p: "\<forall>r \<in> set (rows scenario_table). protein r < real_of_int 1000"
    by (simp add: scenario_defs)
  from recommend_empty_pool [where df = scenario_table and meal = "''suhoor''"
      and calories_max = 700 and protein_min = 1000 and sodium_max = 1200 and top_n = 5
      and sort_values = stable_sort_values] p
  have "recommend stable_sort_values scenario_table ''suhoor'' 700 1000 1200 5 = Inr []"
    by blast
  moreover have "map protein (rows scenario_table) = [30, 10]"
    by (simp add: scenario_defs)
  ultimately show ?thesis
    using scenario_no_survivors by (intro conjI)
qed



text \<open>
  C9. The preparation fails with an error that names an absent required column if
  and only if one of the required columns \<open>title\<close>, \<open>calories\<close>, \<open>protein\<close>,
  \<open>fat\<close>, \<open>sodium\<close> is missing from the raw table; when all five are there it
  raises nothing.
\<close>

theorem prepare_for_app_missing_column:
  "((\<exists>c \<in> set required. c \<notin> set (columns df)) \<longleftrightarrow>
      (\<exists>c. c \<in> set required \<and> c \<notin> set (columns df)
         \<and> prepare_for_app parse df = Inl (ValueError (missing_column_message @ c))))
   \<and> (set required \<subseteq> set (columns df) \<longrightarrow> (\<exists>t. prepare_for_app parse df = Inr t))
   \<and> required = [''title'', ''calories'', ''protein'', ''fat'', ''sodium'']"
proof -
  have a: "\<exists>c. c \<in> set required \<and> c \<notin> set (columns df)
               \<and> prepare_for_app parse df = Inl (ValueError (missing_column_message @ c))"
    if "\<exists>c \<in> set required. c \<notin> set (columns df)"
  proof -
    from that have "find (\<lambda>c. c \<notin> set (columns df)) required \<noteq> None"
      unfolding find_None_iff by blast
    then obtain c where c: "find (\<lambda>c. c \<notin> set (columns df)) required = Some c"
      by blast
    then have "prepare_for_app parse df = Inl (ValueError (missing_column_message @ c))"
      by (simp add: prepare_for_app_def)
    with find_missing_Some [OF c] show ?thesis by blast
  qed
  have b: "\<exists>t. prepare_for_app parse df = Inr t" if "set required \<subseteq> set (columns df)"
    using that find_missing_None [of "columns df" required]
    by (simp add: prepare_for_app_def)
  from a b show ?thesis by (auto simp: required_def)
qed

theorem prepare_for_app_missing_column_witness:
  "(\<exists>c. c \<in> {''protein'', ''sodium''}
       \<and> prepare_for_app parse_digits no_protein_table
            = Inl (ValueError (missing_column_message @ c)))
   \<and> prepare_for_app parse_digits no_protein_table
        = Inl (ValueError (missing_column_message @ ''protein''))
   \<and> (\<exists>t. prepare_for_app parse_digits raw_table = Inr t)"
proof -
  have "\<exists>c \<in> set required. c \<notin> set (columns no_protein_table)"
    by (simp add: required_def no_protein_table_columns)
  with prepare_for_app_missing_column [of no_protein_table parse_digits]
  obtain c where c: "c \<in> set required" "c \<notin> set (columns no_protein_table)"
    "prepare_for_app parse_digits no_protein_table = Inl (ValueError (missing_column_message @ c))"
    by blast
  from c(1,2) have "c \<in> {''protein'', ''sodium''}"
    by (auto simp: required_def no_protein_table_columns)
  with c(3) have a: "\<exists>c. c \<in> {''protein'', ''sodium''}
       \<and> prepare_for_app parse_digits no_protein_table
            = Inl (ValueError (missing_column_message @ c))"
    by blast
  have b: "prepare_for_app parse_digits no_protein_table
        = Inl (ValueError (missing_column_message @ ''protein''))"
    by (simp add: prepare_for_app_def required_def no_protein_table_columns)
  have "set required \<subseteq> set (columns raw_table)"
    by (simp add: required_def raw_table_def)
  with prepare_for_app_missing_column [of raw_table parse_digits]
  have d: "\<exists>t. prepare_for_app parse_digits raw_table = Inr t"
    by blast
  from a b d show ?thesis by (intro conjI)
qed

text \<open>
  C10. For every table and every constraint set with \<open>top_n \<ge> 1\<close>, if at least one
  row survives the slot filter and the hard constraints, \<open>recommend\<close> returns at
  least one row, also in the branch that diversifies: \<open>per_kind_cap\<close> is at least
  1, so each kind group hands on at least one candidate.
\<close>

theorem recommend_nonempty:
  assumes "sorts_by_score sort_values" and "1 \<le> top_n"
    and "survivors df meal calories_max protein_min sodium_max \<noteq> []"
  shows "(\<exists>out. recommend sort_values df meal calories_max protein_min sodium_max top_n = Inr out
            \<and> out \<noteq> [])
       \<and> (\<forall>g \<in> set (groupby_kind (sort_values (map (add_scores calories_max)
                      (survivors df meal calories_max protein_min sodium_max)))).
             head_df (max 1 (top_n div 4)) g \<noteq> [])"
proof -
  let ?pool = "sort_values (map (add_scores calories_max)
                 (survivors df meal calories_max protein_min sodium_max))"
  have pool: "?pool \<noteq> []"
    using sorts_nonempty [OF assms(1)] assms(3) by simp
  have caps: "head_df (max 1 (top_n div 4)) g \<noteq> []" if "g \<in> set (groupby_kind ?pool)" for g
    using that groups_nonempty head_df_nonempty [of "max 1 (top_n div 4)" g] by auto
  obtain g gs where g: "groupby_kind ?pool = g # gs"
    using groupby_kind_nonempty [OF pool] by (cases "groupby_kind ?pool") auto
  then have "concat (map (head_df (max 1 (top_n div 4))) (groupby_kind ?pool)) \<noteq> []"
    using caps [of g] by simp
  then have "head_df top_n (sort_values (concat (map (head_df (max 1 (top_n div 4)))
               (groupby_kind ?pool)))) \<noteq> []"
    using sorts_nonempty [OF assms(1)] head_df_nonempty [OF assms(2)] by blast
  moreover have "head_df top_n ?pool \<noteq> []"
    using pool head_df_nonempty [OF assms(2)] by blast
  ultimately show ?thesis
    using assms(3) caps unfolding recommend_result [OF assms(1)] by auto
qed

theorem recommend_nonempty_witness:
  "survivors kind_table ''either'' 1000 20 1200 \<noteq> []
   \<and> (\<exists>out. recommend stable_sort_values kind_table ''either'' 1000 20 1200 4 = Inr out
         \<and> length out = 2 \<and> out \<noteq> [])"
proof -
  have s: "survivors kind_table ''either'' 1000 20 1200 \<noteq> []"
    unfolding kind_table_survivors by (simp add: kind_table_def)
  have n: "(1::int) \<le> 4" by simp
  from recommend_nonempty [OF stable_sort_values_sorts n s]
  obtain out where out: "recommend stable_sort_values kind_table ''either'' 1000 20 1200 4 = Inr out"
    "out \<noteq> []"
    by blast
  from out(1) have "length out = 2"
    by (auto simp: kind_table_top4)
  with s out show ?thesis by blast
qed

end
